theory Spec2Isabelle
  imports Complex_Main "HOL-Library.Multiset"
begin

section \<open>Python values\<close>

text \<open>
  The development embeds \<^verbatim>\<open>background_vault_analyzer.py\<close>. Python exceptions are
  values of \<open>error\<close>; a function that may raise returns \<open>error + 'a\<close>, and a function whose
  own \<^verbatim>\<open>try/except\<close> turns every exception into \<^verbatim>\<open>None\<close> or \<^verbatim>\<open>False\<close> returns that value.

  Numbers are exact reals: every finite Python \<^verbatim>\<open>int\<close> and \<^verbatim>\<open>float\<close> is one, and Python
  compares them exactly. The IEEE values NaN and the infinities are not represented.
  Strings are lists of \<open>char\<close>, read as code points below 256.
\<close>

datatype error = TypeError | AttributeError | OSError | InterfaceError

text \<open>
  What \<^verbatim>\<open>json.loads\<close> returns: \<open>JNull\<close> is Python's \<^verbatim>\<open>None\<close>, a \<open>JObj\<close> is a
  \<^verbatim>\<open>dict\<close> given by its items.
\<close>

datatype json =
    JNull
  | JBool bool
  | JNum real
  | JStr string
  | JArr "json list"
  | JObj "(string \<times> json) list"

text \<open>Truth value of a Python object, as \<^verbatim>\<open>if x:\<close> takes it.\<close>

fun truthy :: "json \<Rightarrow> bool" where
  "truthy JNull = False"
| "truthy (JBool b) = b"
| "truthy (JNum r) = (r \<noteq> 0)"
| "truthy (JStr s) = (s \<noteq> [])"
| "truthy (JArr xs) = (xs \<noteq> [])"
| "truthy (JObj kvs) = (kvs \<noteq> [])"

text \<open>
  \<^verbatim>\<open>d.get(key, default)\<close> on the items of a dict. Only a dict has the method: on any
  other object the call raises \<^verbatim>\<open>AttributeError\<close>, which the callers below write as the
  branch of a case distinction.
\<close>

definition dict_get :: "(string \<times> json) list \<Rightarrow> string \<Rightarrow> json \<Rightarrow> json" where
  "dict_get kvs k d = (case map_of kvs k of None \<Rightarrow> d | Some v \<Rightarrow> v)"

text \<open>
  The numeric reading of an object in an ordering comparison with a number: \<^verbatim>\<open>bool\<close> is a
  subclass of \<^verbatim>\<open>int\<close>; \<^verbatim>\<open>None\<close>, strings, lists and dicts raise \<^verbatim>\<open>TypeError\<close>.
\<close>

fun num_of :: "json \<Rightarrow> real option" where
  "num_of (JNum r) = Some r"
| "num_of (JBool b) = Some (if b then 1 else 0)"
| "num_of _ = None"

definition py_lt :: "json \<Rightarrow> real \<Rightarrow> error + bool" where
  "py_lt v t = (case num_of v of None \<Rightarrow> Inl TypeError | Some r \<Rightarrow> Inr (r < t))"

section \<open>Strings and paths\<close>

text \<open>\<^verbatim>\<open>str.lower\<close> on code points below 256: A-Z and the Latin-1 capitals.\<close>

definition lower_char :: "char \<Rightarrow> char" where
  "lower_char c =
     (let n = (of_char c :: nat)
      in if (65 \<le> n \<and> n \<le> 90) \<or> (192 \<le> n \<and> n \<le> 222 \<and> n \<noteq> 215)
         then char_of (n + 32) else c)"

definition str_lower :: "string \<Rightarrow> string" where
  "str_lower s = map lower_char s"

text \<open>\<^verbatim>\<open>sub in s\<close>: \<open>sub\<close> occurs in \<open>s\<close> as a contiguous block.\<close>

fun str_prefix :: "string \<Rightarrow> string \<Rightarrow> bool" where
  "str_prefix [] s = True"
| "str_prefix (a # as) [] = False"
| "str_prefix (a # as) (c # cs) = (a = c \<and> str_prefix as cs)"

fun str_contains :: "string \<Rightarrow> string \<Rightarrow> bool" where
  "str_contains sub [] = (sub = [])"
| "str_contains sub (c # cs) = (str_prefix sub (c # cs) \<or> str_contains sub cs)"

text \<open>
  \<^verbatim>\<open>s.replace(old, new)\<close> for a non-empty \<open>old\<close>: every occurrence found scanning
  from the left, an occurrence that overlaps a replaced one not counted.
\<close>

fun str_replace :: "string \<Rightarrow> string \<Rightarrow> string \<Rightarrow> string" where
  "str_replace old new [] = []"
| "str_replace old new (c # cs) =
     (if old \<noteq> [] \<and> str_prefix old (c # cs)
      then new @ str_replace old new (drop (length old - 1) cs)
      else c # str_replace old new cs)"

text \<open>\<^verbatim>\<open>s.count(sub)\<close> for a non-empty \<open>sub\<close>: the occurrences \<^verbatim>\<open>replace\<close> rewrites.\<close>

fun str_count :: "string \<Rightarrow> string \<Rightarrow> nat" where
  "str_count sub [] = 0"
| "str_count sub (c # cs) =
     (if sub \<noteq> [] \<and> str_prefix sub (c # cs)
      then Suc (str_count sub (drop (length sub - 1) cs))
      else str_count sub cs)"

text \<open>\<^verbatim>\<open>str.isspace\<close> on one code point below 256, and \<^verbatim>\<open>s.rstrip()\<close>.\<close>

definition is_space :: "char \<Rightarrow> bool" where
  "is_space c =
     (let n = (of_char c :: nat)
      in (9 \<le> n \<and> n \<le> 13) \<or> (28 \<le> n \<and> n \<le> 32) \<or> n = 133 \<or> n = 160)"

definition str_rstrip :: "string \<Rightarrow> string" where
  "str_rstrip s = rev (dropWhile is_space (rev s))"

text \<open>
  \<^verbatim>\<open>pathlib\<close>: a path is its string in normal form. \<^verbatim>\<open>name\<close> is the last component;
  \<^verbatim>\<open>suffix\<close> starts at the last dot of the name unless that dot is the first or the last
  character; \<^verbatim>\<open>stem\<close> is the name without the suffix.
\<close>

definition path_name :: "string \<Rightarrow> string" where
  "path_name p = rev (takeWhile (\<lambda>c. c \<noteq> CHR ''/'') (rev p))"

definition path_suffix :: "string \<Rightarrow> string" where
  "path_suffix p =
     (let name = path_name p;
          ext = rev (takeWhile (\<lambda>c. c \<noteq> CHR ''.'') (rev name))
      in if CHR ''.'' \<in> set name \<and> ext \<noteq> [] \<and> Suc (length ext) < length name
         then CHR ''.'' # ext else [])"

definition path_stem :: "string \<Rightarrow> string" where
  "path_stem p =
     (let name = path_name p
      in take (length name - length (path_suffix p)) name)"

section \<open>Data model\<close>

text \<open>
  \<^verbatim>\<open>AnalysisResult\<close> and \<^verbatim>\<open>Connection\<close>. A field filled from the analyzer's response
  holds whatever object the response gave, so it is a \<open>json\<close>; \<open>strength_score\<close> is a number
  because \<^verbatim>\<open>analyze_connection\<close> builds a connection only after comparing it with 2.
\<close>

record analysis_result =
  file_path :: string
  primary_topic :: json
  content_type :: json
  key_concepts :: json
  temporal_markers :: json
  project_references :: json
  relationship_hints :: json
  a_confidence :: json
  analyzed_at :: real

record connection =
  source_file :: string
  target_file :: string
  connection_type :: json
  strength_score :: real
  confidence :: json
  reason :: json
  suggested_link :: json
  auto_applied :: bool
  created_at :: real

text \<open>The task dict of \<^verbatim>\<open>_queue_analysis_task\<close> and the tuple put on the queue.\<close>

record task =
  task_file_path :: string
  task_type :: string
  queued_at :: real

type_synonym entry = "int \<times> real \<times> task"

text \<open>A file of the vault: its size in bytes, its text (undecodable bytes dropped), whether
  reading it succeeds, whether its bytes are valid UTF-8, and whether writing it succeeds.\<close>

record vfile =
  st_size :: nat
  content :: string
  readable :: bool
  utf8_valid :: bool
  writable :: bool

text \<open>A row of the \<^verbatim>\<open>connections\<close> table.\<close>

record conn_row =
  row_id :: nat
  row_conn :: connection
  applied_at :: "real option"

text \<open>The configuration, with the shape of \<^verbatim>\<open>default_config\<close>.\<close>

record config =
  auto_apply_enabled :: bool
  confidence_threshold :: real
  strength_threshold :: real
  max_per_hour :: int
  safe_connection_types :: "string list"
  max_file_size_mb :: real
  skip_patterns :: "string list"

definition default_config :: config where
  "default_config =
     \<lparr> auto_apply_enabled = True,
       confidence_threshold = 0.75,
       strength_threshold = 7.0,
       max_per_hour = 15,
       safe_connection_types = [''temporal'', ''project'', ''thematic''],
       max_file_size_mb = 5,
       skip_patterns = [''.git'', ''.obsidian'', ''temp'', ''.temp'', ''__pycache__''] \<rparr>"

text \<open>
  The \<^verbatim>\<open>BackgroundVaultAnalyzer\<close> object, with the part of the world it works on: the
  files (\<open>fs\<close>), the number of clock readings taken (\<open>ticks\<close>) and the number of analyzer
  calls made (\<open>calls\<close>). The wall clock is a function \<open>clk\<close> from the index of a reading to
  the time read, the analyzer a function \<open>llm\<close> from the index of a call to what
  \<^verbatim>\<open>call_ollama\<close> returned (\<open>None\<close> on a timeout or an error).
\<close>

record analyzer =
  task_queue :: "entry list"
  file_hashes :: "string \<rightharpoonup> string"
  stat_errors :: nat
  stat_files_processed :: nat
  stat_connections_found :: nat
  stat_connections_applied :: nat
  connection_application_count :: int
  last_connection_hour :: int
  db_connections :: "conn_row list"
  fs :: "string \<rightharpoonup> vfile"
  ticks :: nat
  calls :: nat

definition time_time :: "(nat \<Rightarrow> real) \<Rightarrow> analyzer \<Rightarrow> real \<times> analyzer" where
  "time_time clk st = (clk (ticks st), st\<lparr>ticks := Suc (ticks st)\<rparr>)"

definition init_analyzer :: "(string \<rightharpoonup> vfile) \<Rightarrow> analyzer" where
  "init_analyzer files =
     \<lparr> task_queue = [], file_hashes = Map.empty, stat_errors = 0,
       stat_files_processed = 0, stat_connections_found = 0,
       stat_connections_applied = 0, connection_application_count = 0,
       last_connection_hour = 0, db_connections = [], fs = files,
       ticks = 0, calls = 0 \<rparr>"

section \<open>The task queue\<close>

text \<open>
  \<^verbatim>\<open>_queue_analysis_task\<close> reads the clock twice, once for the task and once for the
  key, and puts \<^verbatim>\<open>(priority, -time, task)\<close>.
\<close>

definition queue_analysis_task ::
  "(nat \<Rightarrow> real) \<Rightarrow> string \<Rightarrow> int \<Rightarrow> string \<Rightarrow> analyzer \<Rightarrow> analyzer" where
  "queue_analysis_task clk p priority ttype st =
     (let (t1, st1) = time_time clk st;
          tk = \<lparr> task_file_path = p, task_type = ttype, queued_at = t1 \<rparr>;
          (t2, st2) = time_time clk st1
      in st2\<lparr>task_queue := task_queue st2 @ [(priority, - t2, tk)]\<rparr>)"








section \<open>The scanner\<close>

text \<open>
  \<^verbatim>\<open>_should_process_file\<close>. \<^verbatim>\<open>stat\<close> raises for a file that is not there, and the
  function answers \<^verbatim>\<open>False\<close> on any exception. The size in megabytes is the byte count
  divided by \<open>1024 * 1024\<close>; the path is lowercased, the configured patterns are taken as
  they are written.
\<close>

definition should_process_file :: "config \<Rightarrow> string \<Rightarrow> analyzer \<Rightarrow> bool" where
  "should_process_file cfg p st =
     (case fs st p of
        None \<Rightarrow> False
      | Some f \<Rightarrow>
          if real (st_size f) / (1024 * 1024) > max_file_size_mb cfg then False
          else if list_ex (\<lambda>pat. str_contains pat (str_lower p)) (skip_patterns cfg) then False
          else str_lower (path_suffix p) = ''.md'')"

text \<open>
  \<^verbatim>\<open>_get_file_hash\<close>: the MD5 digest of the text read with undecodable bytes ignored,
  \<^verbatim>\<open>None\<close> when reading raises. The digest function \<open>md5\<close> is a parameter.
\<close>

definition get_file_hash :: "(string \<Rightarrow> string) \<Rightarrow> string \<Rightarrow> analyzer \<Rightarrow> string option" where
  "get_file_hash md5 p st =
     (case fs st p of
        None \<Rightarrow> None
      | Some f \<Rightarrow> if readable f then Some (md5 (content f)) else None)"

text \<open>
  One iteration of the loop of \<^verbatim>\<open>_scan_vault_files\<close>. \<^verbatim>\<open>if not file_hash\<close> skips a
  missing and an empty digest. The baseline is written after the enqueue decision,
  whatever it was.
\<close>

definition scan_file ::
  "config \<Rightarrow> (string \<Rightarrow> string) \<Rightarrow> (nat \<Rightarrow> real) \<Rightarrow> string \<Rightarrow> analyzer \<Rightarrow> analyzer" where
  "scan_file cfg md5 clk p st =
     (if \<not> should_process_file cfg p st then st
      else case get_file_hash md5 p st of
        None \<Rightarrow> st
      | Some h \<Rightarrow>
          if h = [] then st
          else
            let st1 = (case file_hashes st p of
                         None \<Rightarrow> queue_analysis_task clk p 1 ''new_file'' st
                       | Some h0 \<Rightarrow>
                           if h0 \<noteq> h
                           then queue_analysis_task clk p 2 ''modified_file'' st
                           else st)
            in st1\<lparr>file_hashes := (file_hashes st1)(p \<mapsto> h)\<rparr>)"

fun scan_files ::
  "config \<Rightarrow> (string \<Rightarrow> string) \<Rightarrow> (nat \<Rightarrow> real) \<Rightarrow> string list \<Rightarrow> analyzer \<Rightarrow> analyzer" where
  "scan_files cfg md5 clk [] st = st"
| "scan_files cfg md5 clk (p # ps) st = scan_files cfg md5 clk ps (scan_file cfg md5 clk p st)"

text \<open>
  \<^verbatim>\<open>_scan_vault_files\<close>. \<open>listing\<close> is what \<^verbatim>\<open>rglob("*.md")\<close> produced, \<open>None\<close> when
  the walk raised; the exception is counted and swallowed.
\<close>

definition scan_vault_files ::
  "config \<Rightarrow> (string \<Rightarrow> string) \<Rightarrow> (nat \<Rightarrow> real) \<Rightarrow> string list option \<Rightarrow> analyzer \<Rightarrow> analyzer" where
  "scan_vault_files cfg md5 clk listing st =
     (case listing of
        None \<Rightarrow> st\<lparr>stat_errors := Suc (stat_errors st)\<rparr>
      | Some ps \<Rightarrow> scan_files cfg md5 clk ps st)"


text \<open>The tasks on the queue that name a given path.\<close>

definition queued_for :: "string \<Rightarrow> analyzer \<Rightarrow> entry list" where
  "queued_for p st = filter (\<lambda>e. task_file_path (snd (snd e)) = p) (task_queue st)"



text \<open>
  The exclusion test as the specification words it, for comparison with the code: the
  path contains the pattern when case is ignored in both.
\<close>

definition ci_contains :: "string \<Rightarrow> string \<Rightarrow> bool" where
  "ci_contains pat p = str_contains (str_lower pat) (str_lower p)"

definition spec_excluded :: "config \<Rightarrow> string \<Rightarrow> analyzer \<Rightarrow> bool" where
  "spec_excluded cfg p st =
     ((case fs st p of None \<Rightarrow> False
       | Some f \<Rightarrow> real (st_size f) / (1024 * 1024) > max_file_size_mb cfg)
      \<or> list_ex (\<lambda>pat. ci_contains pat p) (skip_patterns cfg)
      \<or> str_lower (path_suffix p) \<noteq> ''.md'')"


text \<open>
  The invariant behind the scanner's bound: at most \<open>n + 1\<close> tasks for \<open>p\<close> are queued,
  and once the bound is reached the baseline of \<open>p\<close> is the digest of the text \<open>c\<close>.
\<close>

definition settled :: "(string \<Rightarrow> string) \<Rightarrow> string \<Rightarrow> string \<Rightarrow> nat \<Rightarrow> analyzer \<Rightarrow> bool" where
  "settled md5 p c n st =
     (length (queued_for p st) \<le> Suc n
      \<and> (length (queued_for p st) = Suc n \<longrightarrow> file_hashes st p = Some (md5 c)))"

section \<open>The analyzer gateway\<close>

text \<open>
  The pattern \<^verbatim>\<open>\{[^{}]*(?:\{[^{}]*\}[^{}]*)*\}\<close> of \<^verbatim>\<open>extract_json_from_response\<close>,
  as the automaton it denotes. After an opening brace, \<open>scan_obj False\<close> reads at the outer
  level and \<open>scan_obj True\<close> inside an inner pair of braces; the result is the number of
  characters read up to and including the closing brace, \<open>None\<close> when there is no match
  from this opening brace. A brace inside an inner pair, and the end of the text, end the
  attempt. Every choice of the pattern is forced by the next character, so backtracking
  finds nothing else.
\<close>

fun scan_obj :: "bool \<Rightarrow> string \<Rightarrow> nat option" where
  "scan_obj inner [] = None"
| "scan_obj False (c # cs) =
     (if c = CHR ''}'' then Some 1
      else if c = CHR ''{'' then map_option Suc (scan_obj True cs)
      else map_option Suc (scan_obj False cs))"
| "scan_obj True (c # cs) =
     (if c = CHR ''}'' then map_option Suc (scan_obj False cs)
      else if c = CHR ''{'' then None
      else map_option Suc (scan_obj True cs))"

text \<open>
  \<^verbatim>\<open>re.findall\<close>: the matches from left to right, the search going on behind each match
  and, where no match starts, at the next character.
\<close>

fun find_objects :: "string \<Rightarrow> string list" where
  "find_objects [] = []"
| "find_objects (c # cs) =
     (if c = CHR ''{''
      then (case scan_obj False cs of
              Some k \<Rightarrow> take (Suc k) (c # cs) # find_objects (drop k cs)
            | None \<Rightarrow> find_objects cs)
      else find_objects cs)"

text \<open>
  \<^verbatim>\<open>extract_json_from_response\<close>. \<open>loads\<close> stands for \<^verbatim>\<open>json.loads\<close>, \<open>None\<close> being
  \<^verbatim>\<open>JSONDecodeError\<close>. The result is a Python object, \<open>JNull\<close> for \<^verbatim>\<open>None\<close>: the
  function returns whatever the first successful parse gives.
\<close>

fun first_parse :: "(string \<Rightarrow> json option) \<Rightarrow> string list \<Rightarrow> json" where
  "first_parse loads [] = JNull"
| "first_parse loads (m # ms) =
     (case loads m of Some v \<Rightarrow> v | None \<Rightarrow> first_parse loads ms)"

definition extract_json_from_response ::
  "(string \<Rightarrow> json option) \<Rightarrow> string option \<Rightarrow> json" where
  "extract_json_from_response loads response =
     (case response of
        None \<Rightarrow> JNull
      | Some r \<Rightarrow>
          if r = [] then JNull
          else (case loads r of
                  Some v \<Rightarrow> v
                | None \<Rightarrow> first_parse loads (find_objects r)))"

text \<open>
  \<^verbatim>\<open>call_ollama\<close> is the outside world: call number \<open>calls st\<close> returns \<open>llm (calls st)\<close>.
  The prompt is not modelled, since the answer is arbitrary.
\<close>

definition call_ollama :: "(nat \<Rightarrow> string option) \<Rightarrow> analyzer \<Rightarrow> string option \<times> analyzer" where
  "call_ollama llm st = (llm (calls st), st\<lparr>calls := Suc (calls st)\<rparr>)"

text \<open>
  \<^verbatim>\<open>analyze_file_content\<close>. Reading the file raises when it is missing, unreadable or not
  valid UTF-8; \<^verbatim>\<open>.get\<close> raises on a result that is not a dict; every exception ends in
  \<^verbatim>\<open>None\<close>. The clock is read last, as the last argument of the constructor.
\<close>

definition analyze_file_content ::
  "(nat \<Rightarrow> real) \<Rightarrow> (nat \<Rightarrow> string option) \<Rightarrow> (string \<Rightarrow> json option) \<Rightarrow> string \<Rightarrow> analyzer
     \<Rightarrow> analysis_result option \<times> analyzer" where
  "analyze_file_content clk llm loads p st =
     (case fs st p of
        None \<Rightarrow> (None, st)
      | Some f \<Rightarrow>
          if \<not> (readable f \<and> utf8_valid f) then (None, st)
          else
            let (response, st1) = call_ollama llm st;
                result_data = extract_json_from_response loads response
            in if truthy result_data
               then (case result_data of
                       JObj kvs \<Rightarrow>
                         let (t, st2) = time_time clk st1
                         in (Some \<lparr> file_path = p,
                                    primary_topic = dict_get kvs ''primary_topic'' (JStr ''Unknown''),
                                    content_type = dict_get kvs ''content_type'' (JStr ''unknown''),
                                    key_concepts = dict_get kvs ''key_concepts'' (JArr []),
                                    temporal_markers = dict_get kvs ''temporal_markers'' (JArr []),
                                    project_references = dict_get kvs ''project_references'' (JArr []),
                                    relationship_hints = dict_get kvs ''relationship_hints'' (JArr []),
                                    a_confidence = dict_get kvs ''confidence'' (JNum 0.5),
                                    analyzed_at = t \<rparr>, st2)
                     | _ \<Rightarrow> (None, st1))
               else (None, st1))"

text \<open>
  \<^verbatim>\<open>analyze_connection\<close>. The guard is
  \<^verbatim>\<open>result_data and result_data.get('connection_score', 0) > 2\<close>: a falsy result gives
  \<^verbatim>\<open>None\<close>, a truthy result that is not a dict raises, a score that is not a number
  raises, and every exception ends in \<^verbatim>\<open>None\<close>.
\<close>

definition analyze_connection ::
  "(nat \<Rightarrow> real) \<Rightarrow> (nat \<Rightarrow> string option) \<Rightarrow> (string \<Rightarrow> json option)
     \<Rightarrow> analysis_result \<Rightarrow> analysis_result \<Rightarrow> analyzer \<Rightarrow> connection option \<times> analyzer" where
  "analyze_connection clk llm loads analysis_a analysis_b st =
     (let (response, st1) = call_ollama llm st;
          result_data = extract_json_from_response loads response
      in if \<not> truthy result_data then (None, st1)
         else (case result_data of
                 JObj kvs \<Rightarrow>
                   (case num_of (dict_get kvs ''connection_score'' (JNum 0)) of
                      None \<Rightarrow> (None, st1)
                    | Some score \<Rightarrow>
                        if score > 2
                        then let (t, st2) = time_time clk st1
                             in (Some \<lparr> source_file = file_path analysis_a,
                                        target_file = file_path analysis_b,
                                        connection_type = dict_get kvs ''connection_type'' (JStr ''thematic''),
                                        strength_score = score,
                                        confidence = dict_get kvs ''confidence'' (JNum 0.5),
                                        reason = dict_get kvs ''reason'' (JStr ''No reason provided''),
                                        suggested_link = dict_get kvs ''suggested_link'' JNull,
                                        auto_applied = False,
                                        created_at = t \<rparr>, st2)
                        else (None, st1))
               | _ \<Rightarrow> (None, st1)))"


section \<open>The store of connections\<close>

text \<open>
  \<^verbatim>\<open>save_connection\<close> binds the fields of the connection to an \<^verbatim>\<open>INSERT\<close>. The
  \<^verbatim>\<open>sqlite3\<close> module binds \<^verbatim>\<open>None\<close>, numbers and strings and raises for a list or a
  dict. The row gets the next id; \<^verbatim>\<open>applied_at\<close> is not among the inserted columns. The
  database file is taken to be available.
\<close>

fun sql_bindable :: "json \<Rightarrow> bool" where
  "sql_bindable (JArr xs) = False"
| "sql_bindable (JObj kvs) = False"
| "sql_bindable _ = True"

definition save_connection :: "connection \<Rightarrow> analyzer \<Rightarrow> error + analyzer" where
  "save_connection c st =
     (if sql_bindable (connection_type c) \<and> sql_bindable (confidence c)
         \<and> sql_bindable (reason c) \<and> sql_bindable (suggested_link c)
      then Inr (st\<lparr>db_connections := db_connections st @
                  [\<lparr> row_id = Suc (length (db_connections st)), row_conn = c,
                     applied_at = None \<rparr>]\<rparr>)
      else Inl InterfaceError)"

text \<open>
  The comparisons of the query of \<^verbatim>\<open>get_pending_connections\<close>, in SQLite's order of
  storage classes: \<^verbatim>\<open>NULL\<close> compares to nothing and sorts first, numbers compare by
  value, text sorts above every number and compares bytewise. Rows are represented
  exactly when their values have the declared column types; SQLite's conversion of a
  value of another type on insertion (column affinity) is not modelled.
\<close>

fun str_less :: "string \<Rightarrow> string \<Rightarrow> bool" where
  "str_less [] [] = False"
| "str_less [] (b # bs) = True"
| "str_less (a # as) [] = False"
| "str_less (a # as) (b # bs) =
     ((of_char a :: nat) < of_char b \<or> (a = b \<and> str_less as bs))"

definition sql_ge :: "json \<Rightarrow> real \<Rightarrow> bool" where
  "sql_ge v m =
     (case v of
        JStr s \<Rightarrow> True
      | _ \<Rightarrow> (case num_of v of Some r \<Rightarrow> m \<le> r | None \<Rightarrow> False))"

definition sql_less :: "json \<Rightarrow> json \<Rightarrow> bool" where
  "sql_less a b =
     (case (a, b) of
        (JStr s, JStr t) \<Rightarrow> str_less s t
      | (JStr s, _) \<Rightarrow> False
      | (_, JStr t) \<Rightarrow> True
      | _ \<Rightarrow> (case (num_of a, num_of b) of
                 (Some x, Some y) \<Rightarrow> x < y
               | (None, Some y) \<Rightarrow> True
               | _ \<Rightarrow> False))"

text \<open>
  \<^verbatim>\<open>ORDER BY strength_score DESC, confidence DESC\<close>: \<open>ranks_above a b\<close> when \<open>a\<close> comes
  strictly before \<open>b\<close>. Rows that tie keep their table order.
\<close>

definition ranks_above :: "conn_row \<Rightarrow> conn_row \<Rightarrow> bool" where
  "ranks_above a b =
     (strength_score (row_conn b) < strength_score (row_conn a)
      \<or> (strength_score (row_conn b) = strength_score (row_conn a)
          \<and> sql_less (confidence (row_conn b)) (confidence (row_conn a))))"

fun insert_row :: "conn_row \<Rightarrow> conn_row list \<Rightarrow> conn_row list" where
  "insert_row r [] = [r]"
| "insert_row r (x # xs) = (if ranks_above r x then r # x # xs else x # insert_row r xs)"

definition order_rows :: "conn_row list \<Rightarrow> conn_row list" where
  "order_rows rows = fold insert_row rows []"

definition get_pending_connections :: "real \<Rightarrow> real \<Rightarrow> analyzer \<Rightarrow> connection list" where
  "get_pending_connections min_score min_confidence st =
     map row_conn
       (order_rows
          (filter (\<lambda>r. \<not> auto_applied (row_conn r)
                       \<and> min_score \<le> strength_score (row_conn r)
                       \<and> sql_ge (confidence (row_conn r)) min_confidence)
             (db_connections st)))"

section \<open>Automatic application\<close>

text \<open>\<^verbatim>\<open>int(x)\<close> on a float truncates towards zero.\<close>

definition py_int :: "real \<Rightarrow> int" where
  "py_int x = (if 0 \<le> x then \<lfloor>x\<rfloor> else \<lceil>x\<rceil>)"

text \<open>\<^verbatim>\<open>x in xs\<close> for a list of strings: only an equal string is in it.\<close>

definition in_str_list :: "json \<Rightarrow> string list \<Rightarrow> bool" where
  "in_str_list v xs = (case v of JStr s \<Rightarrow> s \<in> set xs | _ \<Rightarrow> False)"

text \<open>
  \<^verbatim>\<open>_should_auto_apply_connection\<close>. It reads the clock, resets the hourly counter when
  the hour has changed, and then tests in the order of the source; the comparison of the
  confidence raises \<^verbatim>\<open>TypeError\<close> when the confidence is not a number, and
  \<^verbatim>\<open>or\<close> does not evaluate its second operand when the first is true.
\<close>

definition should_auto_apply_connection ::
  "config \<Rightarrow> (nat \<Rightarrow> real) \<Rightarrow> connection \<Rightarrow> analyzer \<Rightarrow> (error + bool) \<times> analyzer" where
  "should_auto_apply_connection cfg clk c st =
     (let (t, st1) = time_time clk st;
          current_hour = py_int (t / 3600);
          st2 = (if current_hour \<noteq> last_connection_hour st1
                 then st1\<lparr>connection_application_count := 0,
                          last_connection_hour := current_hour\<rparr>
                 else st1)
      in if max_per_hour cfg \<le> connection_application_count st2 then (Inr False, st2)
         else (case py_lt (confidence c) (confidence_threshold cfg) of
                 Inl e \<Rightarrow> (Inl e, st2)
               | Inr low \<Rightarrow>
                   if low \<or> strength_score c < strength_threshold cfg then (Inr False, st2)
                   else if \<not> in_str_list (connection_type c) (safe_connection_types cfg)
                   then (Inr False, st2)
                   else (Inr (auto_apply_enabled cfg), st2)))"

text \<open>
  The link line of \<^verbatim>\<open>_apply_connection\<close>. A suggested link that is a string is
  inserted as it is; \<open>fmt\<close> stands for \<^verbatim>\<open>str()\<close> on any other truthy object.
\<close>

definition link_text :: "(json \<Rightarrow> string) \<Rightarrow> connection \<Rightarrow> string" where
  "link_text fmt c =
     (let target_name = path_stem (target_file c)
      in if truthy (suggested_link c)
         then ''- [['' @ target_name @ '']] - '' @
                (case suggested_link c of JStr s \<Rightarrow> s | v \<Rightarrow> fmt v)
         else ''- [['' @ target_name @ '']]'')"

text \<open>The text \<^verbatim>\<open>_apply_connection\<close> writes back, from the text read and the link line.\<close>

definition insert_link :: "string \<Rightarrow> string \<Rightarrow> string" where
  "insert_link link txt =
     (if str_contains ''## Related Notes'' txt
      then str_replace ''## Related Notes'' (''## Related Notes'' @ [CHR 0x0A] @ link) txt
      else if str_contains ''## See Also'' txt
      then str_replace ''## See Also'' (''## See Also'' @ [CHR 0x0A] @ link) txt
      else str_rstrip txt @ [CHR 0x0A, CHR 0x0A] @ ''## Related Notes''
             @ [CHR 0x0A, CHR 0x0A] @ link @ [CHR 0x0A])"

text \<open>The length in bytes of the UTF-8 encoding of a text over code points below 256.\<close>

definition utf8_size :: "string \<Rightarrow> nat" where
  "utf8_size s = sum_list (map (\<lambda>c. if (of_char c :: nat) < 128 then 1 else 2) s)"

text \<open>
  \<^verbatim>\<open>_apply_connection\<close>. It returns \<^verbatim>\<open>False\<close> when either file is missing and on any
  exception of reading or writing; on success the source file holds the new text, the
  connection object is marked and the hourly counter is one higher. The store is not
  written. The result carries the connection object as the call leaves it.
\<close>

definition apply_connection ::
  "(json \<Rightarrow> string) \<Rightarrow> connection \<Rightarrow> analyzer \<Rightarrow> bool \<times> connection \<times> analyzer" where
  "apply_connection fmt c st =
     (case fs st (source_file c) of
        None \<Rightarrow> (False, c, st)
      | Some src \<Rightarrow>
          if fs st (target_file c) = None then (False, c, st)
          else if \<not> (readable src \<and> utf8_valid src) then (False, c, st)
          else if \<not> writable src then (False, c, st)
          else
            let txt = insert_link (link_text fmt c) (content src)
            in (True, c\<lparr>auto_applied := True\<rparr>,
                st\<lparr>fs := (fs st)(source_file c \<mapsto>
                            src\<lparr>content := txt, st_size := utf8_size txt\<rparr>),
                   connection_application_count := connection_application_count st + 1\<rparr>))"

section \<open>The discovery cycle\<close>

text \<open>
  One cycle of \<^verbatim>\<open>_connection_analyzer_loop\<close> over the analyses the store returned. A
  loop returns the number of connections found so far, or the exception that left it,
  together with the state reached; the handler of the cycle counts the exception.
\<close>

definition after_found ::
  "config \<Rightarrow> (nat \<Rightarrow> real) \<Rightarrow> (json \<Rightarrow> string) \<Rightarrow> connection \<Rightarrow> analyzer
     \<Rightarrow> error option \<times> analyzer" where
  "after_found cfg clk fmt c st =
     (case save_connection c st of
        Inl e \<Rightarrow> (Some e, st)
      | Inr st1 \<Rightarrow>
          let st2 = st1\<lparr>stat_connections_found := Suc (stat_connections_found st1)\<rparr>
          in (case should_auto_apply_connection cfg clk c st2 of
                (Inl e, st3) \<Rightarrow> (Some e, st3)
              | (Inr False, st3) \<Rightarrow> (None, st3)
              | (Inr True, st3) \<Rightarrow>
                  (case apply_connection fmt c st3 of
                     (True, c', st4) \<Rightarrow>
                       (None, st4\<lparr>stat_connections_applied :=
                                     Suc (stat_connections_applied st4)\<rparr>)
                   | (False, c', st4) \<Rightarrow> (None, st4))))"

fun compare_with ::
  "config \<Rightarrow> (nat \<Rightarrow> real) \<Rightarrow> (nat \<Rightarrow> string option) \<Rightarrow> (string \<Rightarrow> json option)
     \<Rightarrow> (json \<Rightarrow> string) \<Rightarrow> analysis_result \<Rightarrow> analysis_result list \<Rightarrow> nat \<Rightarrow> analyzer
     \<Rightarrow> (error + nat) \<times> analyzer" where
  "compare_with cfg clk llm loads fmt a [] found st = (Inr found, st)"
| "compare_with cfg clk llm loads fmt a (b # bs) found st =
     (if 20 \<le> found then (Inr found, st)
      else (case analyze_connection clk llm loads a b st of
              (None, st1) \<Rightarrow> compare_with cfg clk llm loads fmt a bs found st1
            | (Some c, st1) \<Rightarrow>
                (case after_found cfg clk fmt c st1 of
                   (Some e, st2) \<Rightarrow> (Inl e, st2)
                 | (None, st2) \<Rightarrow> compare_with cfg clk llm loads fmt a bs (Suc found) st2)))"

fun compare_all ::
  "config \<Rightarrow> (nat \<Rightarrow> real) \<Rightarrow> (nat \<Rightarrow> string option) \<Rightarrow> (string \<Rightarrow> json option)
     \<Rightarrow> (json \<Rightarrow> string) \<Rightarrow> analysis_result list \<Rightarrow> nat \<Rightarrow> analyzer
     \<Rightarrow> (error + nat) \<times> analyzer" where
  "compare_all cfg clk llm loads fmt [] found st = (Inr found, st)"
| "compare_all cfg clk llm loads fmt (a # rest) found st =
     (case compare_with cfg clk llm loads fmt a rest found st of
        (Inl e, st1) \<Rightarrow> (Inl e, st1)
      | (Inr found1, st1) \<Rightarrow>
          if 20 \<le> found1 then (Inr found1, st1)
          else compare_all cfg clk llm loads fmt rest found1 st1)"

definition connection_cycle ::
  "config \<Rightarrow> (nat \<Rightarrow> real) \<Rightarrow> (nat \<Rightarrow> string option) \<Rightarrow> (string \<Rightarrow> json option)
     \<Rightarrow> (json \<Rightarrow> string) \<Rightarrow> analysis_result list \<Rightarrow> analyzer \<Rightarrow> analyzer" where
  "connection_cycle cfg clk llm loads fmt all_analyses st =
     (if length all_analyses < 2 then st
      else (case compare_all cfg clk llm loads fmt (take 50 all_analyses) 0 st of
              (Inl e, st1) \<Rightarrow> st1\<lparr>stat_errors := Suc (stat_errors st1)\<rparr>
            | (Inr found, st1) \<Rightarrow> st1))"

text \<open>
  The invariant of the discovery cycle: every row of the store was there at the start or
  carries a score above 2.
\<close>

definition only_strong :: "analyzer \<Rightarrow> analyzer \<Rightarrow> bool" where
  "only_strong st0 st =
     (\<forall>r \<in> set (db_connections st). r \<in> set (db_connections st0) \<or> 2 < strength_score (row_conn r))"



section \<open>Concrete inputs\<close>



text \<open>
  A digest table that agrees with MD5 on the texts \<open>a\<close>, \<open>b\<close> and the empty text, the only
  texts the concrete inputs hash.
\<close>

definition md5_table :: "string \<Rightarrow> string" where
  "md5_table s =
     (if s = ''a'' then ''0cc175b9c0f1b6a831c399e269772661''
      else if s = ''b'' then ''92eb5ffee6ae2fec3ad71c777531578f''
      else ''d41d8cd98f00b204e9800998ecf8427e'')"

definition small_file :: vfile where
  "small_file =
     \<lparr> st_size = 1, content = ''a'', readable = True, utf8_valid = True, writable = True \<rparr>"

text \<open>A configuration whose exclusion list holds a pattern with a capital letter.\<close>

definition capital_config :: config where
  "capital_config = default_config\<lparr>skip_patterns := [''Temp'']\<rparr>"


text \<open>
  A parse table that agrees with \<^verbatim>\<open>json.loads\<close> on the texts the concrete inputs ask
  about: the one-key objects parse, the first of them inside a further pair of braces does
  not, and neither does it with words around it.
\<close>

definition loads_table :: "string \<Rightarrow> json option" where
  \<open>loads_table s =
     (if s = ''{"a": 1}'' then Some (JObj [(''a'', JNum 1)])
      else if s = ''{"connection_score": 5}'' then Some (JObj [(''connection_score'', JNum 5)])
      else if s = ''{"connection_score": 2}'' then Some (JObj [(''connection_score'', JNum 2)])
      else if s = ''{"connection_score": 8, "connection_type": "thematic", "confidence": 0.9}''
      then Some (JObj [(''connection_score'', JNum 8), (''connection_type'', JStr ''thematic''),
                       (''confidence'', JNum 0.9)])
      else None)\<close>

text \<open>Two classifications, and analyzers that answer every call with the same text.\<close>

definition note_a :: analysis_result where
  "note_a =
     \<lparr> file_path = ''/v/a.md'', primary_topic = JStr ''Unknown'', content_type = JStr ''unknown'',
       key_concepts = JArr [], temporal_markers = JArr [], project_references = JArr [],
       relationship_hints = JArr [], a_confidence = JNum 0.5, analyzed_at = 2 \<rparr>"

definition note_b :: analysis_result where
  "note_b = note_a\<lparr>file_path := ''/v/b.md'', analyzed_at := 1\<rparr>"

definition llm_score_five :: "nat \<Rightarrow> string option" where
  \<open>llm_score_five n = Some ''{"connection_score": 5}''\<close>

definition llm_score_two :: "nat \<Rightarrow> string option" where
  \<open>llm_score_two n = Some ''{"connection_score": 2}''\<close>

definition llm_one_key :: "nat \<Rightarrow> string option" where
  \<open>llm_one_key n = Some ''{"a": 1}''\<close>

text \<open>A rendering of objects that are not strings; no concrete input reaches it.\<close>

definition fmt_none :: "json \<Rightarrow> string" where
  "fmt_none v = []"

text \<open>What the gateway builds from a response that names only the score, and from one that
  names none of the fields.\<close>

definition conn_five :: connection where
  "conn_five =
     \<lparr> source_file = ''/v/a.md'', target_file = ''/v/b.md'',
       connection_type = JStr ''thematic'', strength_score = 5, confidence = JNum 0.5,
       reason = JStr ''No reason provided'', suggested_link = JNull, auto_applied = False,
       created_at = 0 \<rparr>"

definition analysis_defaults :: analysis_result where
  "analysis_defaults =
     \<lparr> file_path = ''/v/a.md'', primary_topic = JStr ''Unknown'', content_type = JStr ''unknown'',
       key_concepts = JArr [], temporal_markers = JArr [], project_references = JArr [],
       relationship_hints = JArr [], a_confidence = JNum 0.5, analyzed_at = 0 \<rparr>"

text \<open>
  The end-to-end scenario of the specification: two notes, an analyzer that scores every
  pair 8 with confidence 0.9 and type \<^verbatim>\<open>thematic\<close>, a clock in its sixth hour.
\<close>

definition llm_strong :: "nat \<Rightarrow> string option" where
  \<open>llm_strong n = Some ''{"connection_score": 8, "connection_type": "thematic", "confidence": 0.9}''\<close>

definition clock_hour5 :: "nat \<Rightarrow> real" where
  "clock_hour5 n = 18000 + real n"

definition conn_strong :: connection where
  "conn_strong =
     \<lparr> source_file = ''/v/a.md'', target_file = ''/v/b.md'',
       connection_type = JStr ''thematic'', strength_score = 8, confidence = JNum 0.9,
       reason = JStr ''No reason provided'', suggested_link = JNull, auto_applied = False,
       created_at = 18000 \<rparr>"

definition two_notes :: "string \<rightharpoonup> vfile" where
  "two_notes = [''/v/a.md'' \<mapsto> small_file, ''/v/b.md'' \<mapsto> small_file]"


text \<open>
  The first note after the link to the second has been appended, the row the cycle
  stores for the connection, and the state in which the cycle of the scenario ends.
\<close>

definition a_linked :: string where
  "a_linked = ''a'' @ [CHR 0x0A, CHR 0x0A] @ ''## Related Notes'' @ [CHR 0x0A, CHR 0x0A]
                @ ''- [[b]]'' @ [CHR 0x0A]"

definition a_after :: vfile where
  "a_after = small_file\<lparr>content := a_linked, st_size := 29\<rparr>"

definition row_strong :: conn_row where
  "row_strong = \<lparr> row_id = 1, row_conn = conn_strong, applied_at = None \<rparr>"

definition after_cycle :: analyzer where
  "after_cycle =
     (init_analyzer two_notes)
       \<lparr> calls := 1, ticks := 2, db_connections := [row_strong],
         stat_connections_found := 1, connection_application_count := 1,
         last_connection_hour := 5, fs := two_notes(''/v/a.md'' \<mapsto> a_after),
         stat_connections_applied := 1 \<rparr>"





section \<open>The task queue serves by priority, then last in first out\<close>












section \<open>The scanner\<close>

lemma fs_queue_analysis_task [simp]: "fs (queue_analysis_task clk p pr ty st) = fs st"
  by (simp add: queue_analysis_task_def time_time_def)

lemma file_hashes_queue_analysis_task [simp]:
  "file_hashes (queue_analysis_task clk p pr ty st) = file_hashes st"
  by (simp add: queue_analysis_task_def time_time_def)

lemma task_queue_queue_analysis_task:
  "task_queue (queue_analysis_task clk p pr ty st) =
     task_queue st @ [(pr, - clk (Suc (ticks st)),
        \<lparr>task_file_path = p, task_type = ty, queued_at = clk (ticks st)\<rparr>)]"
  by (simp add: queue_analysis_task_def time_time_def)

lemma should_process_file_fs:
  "fs st' = fs st \<Longrightarrow> should_process_file cfg p st' = should_process_file cfg p st"
  by (simp add: should_process_file_def)

lemma get_file_hash_fs:
  "fs st' = fs st \<Longrightarrow> get_file_hash md5 p st' = get_file_hash md5 p st"
  by (simp add: get_file_hash_def)

lemma fs_scan_file [simp]: "fs (scan_file cfg md5 clk p st) = fs st"
  by (simp add: scan_file_def Let_def split: option.splits)

lemma fs_scan_files [simp]: "fs (scan_files cfg md5 clk ps st) = fs st"
  by (induction ps arbitrary: st) simp_all

lemma queued_for_queue_analysis_task:
  "queued_for p (queue_analysis_task clk q pr ty st) =
     queued_for p st @ (if q = p then [(pr, - clk (Suc (ticks st)),
        \<lparr>task_file_path = q, task_type = ty, queued_at = clk (ticks st)\<rparr>)] else [])"
  by (simp add: queued_for_def task_queue_queue_analysis_task)

lemma queued_for_file_hashes_update [simp]:
  "queued_for p (st\<lparr>file_hashes := m\<rparr>) = queued_for p st"
  by (simp add: queued_for_def)

lemma queued_for_stat_errors_update [simp]:
  "queued_for p (st\<lparr>stat_errors := n\<rparr>) = queued_for p st"
  by (simp add: queued_for_def)

lemma queued_for_fs_update [simp]:
  "queued_for p (st\<lparr>fs := m\<rparr>) = queued_for p st"
  by (simp add: queued_for_def)

lemma queued_for_scan_file_other:
  "q \<noteq> p \<Longrightarrow> queued_for p (scan_file cfg md5 clk q st) = queued_for p st"
  by (simp add: scan_file_def Let_def queued_for_queue_analysis_task split: option.splits)

lemma queued_for_scan_file_excluded:
  "\<not> should_process_file cfg p st \<Longrightarrow> queued_for p (scan_file cfg md5 clk q st) = queued_for p st"
  by (cases "q = p") (simp_all add: queued_for_scan_file_other, simp add: scan_file_def)

lemma queued_for_scan_files_excluded:
  "\<not> should_process_file cfg p st \<Longrightarrow> queued_for p (scan_files cfg md5 clk ps st) = queued_for p st"
proof (induction ps arbitrary: st)
  case Nil
  then show ?case by simp
next
  case (Cons q ps)
  have "\<not> should_process_file cfg p (scan_file cfg md5 clk q st)"
    using Cons.prems should_process_file_fs [of "scan_file cfg md5 clk q st" st cfg p] by simp
  from Cons.IH [OF this] show ?case
    using queued_for_scan_file_excluded [OF Cons.prems] by simp
qed

lemma not_should_process_file:
  "(\<not> should_process_file cfg p st) =
     (case fs st p of None \<Rightarrow> True
      | Some f \<Rightarrow> real (st_size f) / (1024 * 1024) > max_file_size_mb cfg
          \<or> (\<exists>pat \<in> set (skip_patterns cfg). str_contains pat (str_lower p))
          \<or> str_lower (path_suffix p) \<noteq> ''.md'')"
  by (auto simp: should_process_file_def list_ex_iff split: option.splits)

text \<open>
  What the inclusion policy guarantees on the code: a scan leaves the queued tasks of a
  path as they were when the file at that path is larger than the configured maximum, or
  its lowercased path contains one of the exclusion patterns as the configuration writes
  it, or the lowercased suffix of its name is not \<^verbatim>\<open>.md\<close>; whether the path is new or
  modified plays no part.
\<close>

lemma excluded_never_enqueued:
  assumes "fs st p = Some f"
    and "real (st_size f) / (1024 * 1024) > max_file_size_mb cfg
         \<or> (\<exists>pat \<in> set (skip_patterns cfg). str_contains pat (str_lower p))
         \<or> str_lower (path_suffix p) \<noteq> ''.md''"
  shows "queued_for p (scan_vault_files cfg md5 clk listing st) = queued_for p st"
proof -
  have "\<not> should_process_file cfg p st"
    using assms by (simp add: not_should_process_file)
  then show ?thesis
    by (cases listing) (simp_all add: scan_vault_files_def queued_for_scan_files_excluded)
qed






lemma settled_fs_update [simp]: "settled md5 p c n (st\<lparr>fs := m\<rparr>) = settled md5 p c n st"
  by (simp add: settled_def)





lemma lower_md: "str_lower ''.md'' = ''.md''"
  by code_simp



lemma lower_v_Temp: "str_lower ''/v/Temp/a.md'' = ''/v/temp/a.md''"
  by code_simp

lemma lower_Temp: "str_lower ''Temp'' = ''temp''"
  by code_simp

lemma suffix_a_md: "path_suffix ''/v/Temp/a.md'' = ''.md''"
  by (simp add: path_suffix_def path_name_def)

text \<open>
  Claim C6 at a pattern with a capital letter. With the exclusion list \<^verbatim>\<open>["Temp"]\<close> the
  path \<^verbatim>\<open>/v/Temp/a.md\<close> contains an exclusion pattern when case is ignored, so the
  claim excludes it; the scan queues it as a new file, because the code lowercases the
  path and not the pattern.
\<close>

theorem capital_pattern_is_enqueued:
  "spec_excluded capital_config ''/v/Temp/a.md'' (init_analyzer [''/v/Temp/a.md'' \<mapsto> small_file])
   \<and> queued_for ''/v/Temp/a.md''
       (scan_vault_files capital_config md5_table real (Some [''/v/Temp/a.md''])
          (init_analyzer [''/v/Temp/a.md'' \<mapsto> small_file])) =
     [(1, - 1, \<lparr>task_file_path = ''/v/Temp/a.md'', task_type = ''new_file'', queued_at = 0\<rparr>)]"
  by (simp add: spec_excluded_def ci_contains_def capital_config_def default_config_def
      init_analyzer_def small_file_def lower_v_Temp suffix_a_md scan_vault_files_def
      scan_file_def should_process_file_def get_file_hash_def md5_table_def
      queued_for_def queue_analysis_task_def time_time_def lower_Temp lower_md)

lemma excluded_never_enqueued_lowercase_pattern:
  "fs (init_analyzer [''/v/Temp/a.md'' \<mapsto> small_file]) ''/v/Temp/a.md'' = Some small_file
   \<and> (\<exists>pat \<in> set (skip_patterns default_config). str_contains pat (str_lower ''/v/Temp/a.md''))
   \<and> queued_for ''/v/Temp/a.md''
       (scan_vault_files default_config md5_table real (Some [''/v/Temp/a.md''])
          (init_analyzer [''/v/Temp/a.md'' \<mapsto> small_file])) = []"
proof -
  have f: "fs (init_analyzer [''/v/Temp/a.md'' \<mapsto> small_file]) ''/v/Temp/a.md'' = Some small_file"
    by (simp add: init_analyzer_def)
  have c: "\<exists>pat \<in> set (skip_patterns default_config). str_contains pat (str_lower ''/v/Temp/a.md'')"
    by (simp add: default_config_def lower_v_Temp)
  have q: "queued_for ''/v/Temp/a.md'' (init_analyzer [''/v/Temp/a.md'' \<mapsto> small_file]) = []"
    by (simp add: queued_for_def init_analyzer_def)
  from excluded_never_enqueued [OF f, of default_config md5_table real "Some [''/v/Temp/a.md'']"] c q f
  show ?thesis by simp
qed

section \<open>Forced analysis\<close>

lemma ticks_queue_analysis_task [simp]:
  "ticks (queue_analysis_task clk p pr ty st) = ticks st + 2"
  by (simp add: queue_analysis_task_def time_time_def)




lemma suffix_v_big: "path_suffix ''/v/.git/big.txt'' = ''.txt''"
  by (simp add: path_suffix_def path_name_def)


section \<open>Extracting the structured result\<close>











section \<open>The gateway and the discovery cycle\<close>

lemma analyze_file_content_Some:
  assumes "analyze_file_content clk llm loads p st = (Some a, st')"
  shows "\<exists>kvs. extract_json_from_response loads (llm (calls st)) = JObj kvs
     \<and> a = \<lparr> file_path = p,
             primary_topic = dict_get kvs ''primary_topic'' (JStr ''Unknown''),
             content_type = dict_get kvs ''content_type'' (JStr ''unknown''),
             key_concepts = dict_get kvs ''key_concepts'' (JArr []),
             temporal_markers = dict_get kvs ''temporal_markers'' (JArr []),
             project_references = dict_get kvs ''project_references'' (JArr []),
             relationship_hints = dict_get kvs ''relationship_hints'' (JArr []),
             a_confidence = dict_get kvs ''confidence'' (JNum 0.5),
             analyzed_at = clk (ticks st) \<rparr>"
  using assms
  by (auto simp: analyze_file_content_def call_ollama_def time_time_def Let_def
      split: option.splits if_splits json.splits)

lemma analyze_connection_Some:
  assumes "analyze_connection clk llm loads x y st = (Some c, st')"
  shows "\<exists>kvs score. extract_json_from_response loads (llm (calls st)) = JObj kvs
     \<and> num_of (dict_get kvs ''connection_score'' (JNum 0)) = Some score \<and> 2 < score
     \<and> c = \<lparr> source_file = file_path x, target_file = file_path y,
             connection_type = dict_get kvs ''connection_type'' (JStr ''thematic''),
             strength_score = score,
             confidence = dict_get kvs ''confidence'' (JNum 0.5),
             reason = dict_get kvs ''reason'' (JStr ''No reason provided''),
             suggested_link = dict_get kvs ''suggested_link'' JNull,
             auto_applied = False,
             created_at = clk (ticks st) \<rparr>
     \<and> st' = st\<lparr>calls := Suc (calls st), ticks := Suc (ticks st)\<rparr>"
  using assms
  by (auto simp: analyze_connection_def call_ollama_def time_time_def Let_def
      split: option.splits if_splits json.splits)


lemma db_analyze_connection:
  "db_connections (snd (analyze_connection clk llm loads x y st)) = db_connections st"
  by (auto simp: analyze_connection_def call_ollama_def time_time_def Let_def
      split: option.splits if_splits json.splits)

lemma db_should_auto_apply:
  "db_connections (snd (should_auto_apply_connection cfg clk c st)) = db_connections st"
  by (auto simp: should_auto_apply_connection_def time_time_def Let_def
      split: sum.splits if_splits)

lemma db_apply_connection:
  "db_connections (snd (snd (apply_connection fmt c st))) = db_connections st"
  by (auto simp: apply_connection_def Let_def split: option.splits if_splits)

lemma db_save_connection:
  "save_connection c st = Inr st' \<Longrightarrow>
     db_connections st' = db_connections st @
        [\<lparr> row_id = Suc (length (db_connections st)), row_conn = c, applied_at = None \<rparr>]"
  by (auto simp: save_connection_def split: if_splits)

lemma db_after_found:
  assumes "after_found cfg clk fmt c st = (e, st')" "r \<in> set (db_connections st')"
  shows "r \<in> set (db_connections st) \<or> row_conn r = c"
proof (cases "save_connection c st")
  case (Inl x)
  with assms show ?thesis by (simp add: after_found_def)
next
  case (Inr st1)
  let ?st2 = "st1\<lparr>stat_connections_found := Suc (stat_connections_found st1)\<rparr>"
  obtain res st3 where sa: "should_auto_apply_connection cfg clk c ?st2 = (res, st3)"
    by (cases "should_auto_apply_connection cfg clk c ?st2")
  have d3: "db_connections st3 = db_connections st1"
    using db_should_auto_apply [of cfg clk c ?st2] sa by simp
  obtain ok c' st4 where ap: "apply_connection fmt c st3 = (ok, c', st4)"
    by (cases "apply_connection fmt c st3")
  have d4: "db_connections st4 = db_connections st3"
    using db_apply_connection [of fmt c st3] ap by simp
  have "db_connections st' = db_connections st1"
    using assms(1) Inr sa ap d3 d4
    by (auto simp: after_found_def Let_def split: sum.splits bool.splits)
  then show ?thesis using assms(2) db_save_connection [OF Inr] by auto
qed

lemma only_strong_compare_with:
  "only_strong st0 st \<Longrightarrow>
     only_strong st0 (snd (compare_with cfg clk llm loads fmt a bs found st))"
proof (induction bs arbitrary: found st)
  case Nil
  then show ?case by simp
next
  case (Cons b bs)
  show ?case
  proof (cases "20 \<le> found")
    case True
    with Cons.prems show ?thesis by simp
  next
    case False
    obtain co st1 where ac: "analyze_connection clk llm loads a b st = (co, st1)"
      by (cases "analyze_connection clk llm loads a b st")
    have d1: "db_connections st1 = db_connections st"
      using db_analyze_connection [of clk llm loads a b st] ac by simp
    then have s1: "only_strong st0 st1" using Cons.prems by (simp add: only_strong_def)
    show ?thesis
    proof (cases co)
      case None
      with False ac Cons.IH [OF s1] show ?thesis by simp
    next
      case (Some c)
      have strong: "2 < strength_score c"
        using analyze_connection_Some [of clk llm loads a b st c st1] ac Some by auto
      obtain e st2 where af: "after_found cfg clk fmt c st1 = (e, st2)"
        by (cases "after_found cfg clk fmt c st1")
      have s2: "only_strong st0 st2"
        unfolding only_strong_def
      proof
        fix r assume "r \<in> set (db_connections st2)"
        from db_after_found [OF af this] show
          "r \<in> set (db_connections st0) \<or> 2 < strength_score (row_conn r)"
          using s1 strong by (auto simp: only_strong_def)
      qed
      show ?thesis
        using False ac Some af s2 Cons.IH [OF s2] by (cases e) simp_all
    qed
  qed
qed

lemma only_strong_compare_all:
  "only_strong st0 st \<Longrightarrow>
     only_strong st0 (snd (compare_all cfg clk llm loads fmt xs found st))"
proof (induction xs arbitrary: found st)
  case Nil
  then show ?case by simp
next
  case (Cons a rest)
  obtain res st1 where cw: "compare_with cfg clk llm loads fmt a rest found st = (res, st1)"
    by (cases "compare_with cfg clk llm loads fmt a rest found st")
  have s1: "only_strong st0 st1"
    using only_strong_compare_with [OF Cons.prems, of cfg clk llm loads fmt a rest found] cw
    by simp
  show ?case
    using cw s1 Cons.IH [OF s1] by (cases res) simp_all
qed

text \<open>
  Claim C4. A connection that \<^verbatim>\<open>analyze_connection\<close> returns has a score above 2; a
  response whose score is a number at or below 2 gives \<^verbatim>\<open>None\<close>; and every row that a
  discovery cycle adds to the store has a score above 2, since the cycle saves only what
  \<^verbatim>\<open>analyze_connection\<close> returned.
\<close>

theorem weak_connections_discarded:
  "(analyze_connection clk llm loads x y st = (Some c, st') \<longrightarrow> 2 < strength_score c)
   \<and> (extract_json_from_response loads (llm (calls st)) = JObj kvs
        \<and> num_of (dict_get kvs ''connection_score'' (JNum 0)) = Some score \<and> score \<le> 2
      \<longrightarrow> fst (analyze_connection clk llm loads x y st) = None)
   \<and> (\<forall>r \<in> set (db_connections (connection_cycle cfg clk llm loads fmt all_analyses st)).
         r \<in> set (db_connections st) \<or> 2 < strength_score (row_conn r))"
proof (intro conjI impI)
  assume "analyze_connection clk llm loads x y st = (Some c, st')"
  from analyze_connection_Some [OF this] show "2 < strength_score c" by auto
next
  assume "extract_json_from_response loads (llm (calls st)) = JObj kvs
        \<and> num_of (dict_get kvs ''connection_score'' (JNum 0)) = Some score \<and> score \<le> 2"
  then show "fst (analyze_connection clk llm loads x y st) = None"
    by (simp add: analyze_connection_def call_ollama_def Let_def)
next
  have s0: "only_strong st st" by (simp add: only_strong_def)
  have "only_strong st (connection_cycle cfg clk llm loads fmt all_analyses st)"
  proof (cases "length all_analyses < 2")
    case True
    then show ?thesis using s0 by (simp add: connection_cycle_def)
  next
    case False
    obtain res st1 where
      ca: "compare_all cfg clk llm loads fmt (take 50 all_analyses) 0 st = (res, st1)"
      by (cases "compare_all cfg clk llm loads fmt (take 50 all_analyses) 0 st")
    have "only_strong st st1"
      using only_strong_compare_all [OF s0, of cfg clk llm loads fmt "take 50 all_analyses" 0] ca
      by simp
    then show ?thesis
      using False ca by (cases res) (simp_all add: connection_cycle_def only_strong_def)
  qed
  then show "\<forall>r \<in> set (db_connections (connection_cycle cfg clk llm loads fmt all_analyses st)).
         r \<in> set (db_connections st) \<or> 2 < strength_score (row_conn r)"
    by (simp add: only_strong_def)
qed


lemma extract_five:
  "extract_json_from_response loads_table (llm_score_five n) = JObj [(''connection_score'', JNum 5)]"
  by (simp add: extract_json_from_response_def loads_table_def llm_score_five_def)

lemma extract_two:
  "extract_json_from_response loads_table (llm_score_two n) = JObj [(''connection_score'', JNum 2)]"
  by (simp add: extract_json_from_response_def loads_table_def llm_score_two_def)

lemma init_analyzer_fields:
  "task_queue (init_analyzer f) = []"
  "file_hashes (init_analyzer f) = Map.empty"
  "stat_errors (init_analyzer f) = 0"
  "stat_connections_found (init_analyzer f) = 0"
  "stat_connections_applied (init_analyzer f) = 0"
  "connection_application_count (init_analyzer f) = 0"
  "last_connection_hour (init_analyzer f) = 0"
  "db_connections (init_analyzer f) = []"
  "fs (init_analyzer f) = f"
  "ticks (init_analyzer f) = 0"
  "calls (init_analyzer f) = 0"
  by (simp_all add: init_analyzer_def)

lemma analyze_five:
  "analyze_connection real llm_score_five loads_table note_a note_b (init_analyzer Map.empty) =
     (Some conn_five, (init_analyzer Map.empty)\<lparr>calls := 1, ticks := 1\<rparr>)"
  by (simp add: analyze_connection_def call_ollama_def extract_five dict_get_def time_time_def
      conn_five_def note_a_def note_b_def init_analyzer_def)

lemma cycle_five:
  "db_connections (connection_cycle default_config real llm_score_five loads_table fmt_none
      [note_a, note_b] (init_analyzer Map.empty)) =
     [\<lparr> row_id = 1, row_conn = conn_five, applied_at = None \<rparr>]"
  by (simp add: connection_cycle_def analyze_five after_found_def save_connection_def
      conn_five_def should_auto_apply_connection_def time_time_def py_lt_def default_config_def
      init_analyzer_fields py_int_def)

theorem weak_connections_discarded_witness:
  "analyze_connection real llm_score_five loads_table note_a note_b (init_analyzer Map.empty) =
     (Some conn_five, (init_analyzer Map.empty)\<lparr>calls := 1, ticks := 1\<rparr>)
   \<and> 2 < strength_score conn_five
   \<and> extract_json_from_response loads_table (llm_score_two (calls (init_analyzer Map.empty)))
       = JObj [(''connection_score'', JNum 2)]
   \<and> fst (analyze_connection real llm_score_two loads_table note_a note_b (init_analyzer Map.empty))
       = None
   \<and> db_connections (connection_cycle default_config real llm_score_five loads_table fmt_none
        [note_a, note_b] (init_analyzer Map.empty)) =
       [\<lparr> row_id = 1, row_conn = conn_five, applied_at = None \<rparr>]"
proof -
  have s: "num_of (dict_get [(''connection_score'', JNum 2)] ''connection_score'' (JNum 0)) = Some 2"
    by (simp add: dict_get_def)
  from weak_connections_discarded [of real llm_score_five loads_table note_a note_b
      "init_analyzer Map.empty" conn_five "(init_analyzer Map.empty)\<lparr>calls := 1, ticks := 1\<rparr>"]
    weak_connections_discarded [of real llm_score_two loads_table note_a note_b
      "init_analyzer Map.empty" conn_five "init_analyzer Map.empty"
      "[(''connection_score'', JNum 2)]" 2]
    analyze_five cycle_five extract_two s
  show ?thesis by simp
qed


lemma extract_one_key:
  "extract_json_from_response loads_table (llm_one_key n) = JObj [(''a'', JNum 1)]"
  by (simp add: extract_json_from_response_def loads_table_def llm_one_key_def)

lemma analyze_one_key:
  "analyze_file_content real llm_one_key loads_table ''/v/a.md''
     (init_analyzer [''/v/a.md'' \<mapsto> small_file]) =
   (Some analysis_defaults, (init_analyzer [''/v/a.md'' \<mapsto> small_file])\<lparr>calls := 1, ticks := 1\<rparr>)"
  by (simp add: analyze_file_content_def call_ollama_def extract_one_key dict_get_def
      time_time_def analysis_defaults_def init_analyzer_def small_file_def)

text \<open>
  Claim C9 as stated fails: a classification built from a response without
  \<^verbatim>\<open>content_type\<close> holds \<^verbatim>\<open>unknown\<close> in lower case, and a connection built from a
  response that names only the score holds the type \<^verbatim>\<open>thematic\<close> and the reason
  \<^verbatim>\<open>No reason provided\<close>, none of them the text \<^verbatim>\<open>Unknown\<close>.
\<close>

theorem unknown_default_counterexample:
  "map_option content_type
     (fst (analyze_file_content real llm_one_key loads_table ''/v/a.md''
        (init_analyzer [''/v/a.md'' \<mapsto> small_file]))) = Some (JStr ''unknown'')
   \<and> map_option connection_type
     (fst (analyze_connection real llm_score_five loads_table note_a note_b
        (init_analyzer Map.empty))) = Some (JStr ''thematic'')
   \<and> map_option reason
     (fst (analyze_connection real llm_score_five loads_table note_a note_b
        (init_analyzer Map.empty))) = Some (JStr ''No reason provided'')
   \<and> map_option reason
     (fst (analyze_connection real llm_score_five loads_table note_a note_b
        (init_analyzer Map.empty))) \<noteq> Some (JStr ''Unknown'')"
  by (simp add: analyze_one_key analyze_five analysis_defaults_def conn_five_def)

text \<open>
  Claim C9, as amended. In a classification an absent \<^verbatim>\<open>primary_topic\<close> becomes
  \<^verbatim>\<open>Unknown\<close>, an absent \<^verbatim>\<open>content_type\<close> becomes \<^verbatim>\<open>unknown\<close>, each absent list
  becomes the empty list and an absent confidence becomes 0.5. In a connection the score
  is never absent (a response without it gives no connection), an absent type becomes
  \<^verbatim>\<open>thematic\<close>, an absent confidence 0.5, an absent reason \<^verbatim>\<open>No reason provided\<close> and
  an absent suggested link \<^verbatim>\<open>None\<close>.
\<close>

theorem absent_fields_defaults:
  "(analyze_file_content clk llm loads p st = (Some a, st1) \<longrightarrow>
      (\<exists>kvs. extract_json_from_response loads (llm (calls st)) = JObj kvs
         \<and> (map_of kvs ''primary_topic'' = None \<longrightarrow> primary_topic a = JStr ''Unknown'')
         \<and> (map_of kvs ''content_type'' = None \<longrightarrow> content_type a = JStr ''unknown'')
         \<and> (map_of kvs ''key_concepts'' = None \<longrightarrow> key_concepts a = JArr [])
         \<and> (map_of kvs ''temporal_markers'' = None \<longrightarrow> temporal_markers a = JArr [])
         \<and> (map_of kvs ''project_references'' = None \<longrightarrow> project_references a = JArr [])
         \<and> (map_of kvs ''relationship_hints'' = None \<longrightarrow> relationship_hints a = JArr [])
         \<and> (map_of kvs ''confidence'' = None \<longrightarrow> a_confidence a = JNum 0.5)))
   \<and> (analyze_connection clk llm loads x y st = (Some c, st2) \<longrightarrow>
      (\<exists>kvs. extract_json_from_response loads (llm (calls st)) = JObj kvs
         \<and> map_of kvs ''connection_score'' \<noteq> None
         \<and> (map_of kvs ''connection_type'' = None \<longrightarrow> connection_type c = JStr ''thematic'')
         \<and> (map_of kvs ''confidence'' = None \<longrightarrow> confidence c = JNum 0.5)
         \<and> (map_of kvs ''reason'' = None \<longrightarrow> reason c = JStr ''No reason provided'')
         \<and> (map_of kvs ''suggested_link'' = None \<longrightarrow> suggested_link c = JNull)))"
proof (intro conjI impI)
  assume "analyze_file_content clk llm loads p st = (Some a, st1)"
  from analyze_file_content_Some [OF this] obtain kvs where
    k: "extract_json_from_response loads (llm (calls st)) = JObj kvs"
    and a: "a = \<lparr> file_path = p,
             primary_topic = dict_get kvs ''primary_topic'' (JStr ''Unknown''),
             content_type = dict_get kvs ''content_type'' (JStr ''unknown''),
             key_concepts = dict_get kvs ''key_concepts'' (JArr []),
             temporal_markers = dict_get kvs ''temporal_markers'' (JArr []),
             project_references = dict_get kvs ''project_references'' (JArr []),
             relationship_hints = dict_get kvs ''relationship_hints'' (JArr []),
             a_confidence = dict_get kvs ''confidence'' (JNum 0.5),
             analyzed_at = clk (ticks st) \<rparr>" by blast
  show "\<exists>kvs. extract_json_from_response loads (llm (calls st)) = JObj kvs
         \<and> (map_of kvs ''primary_topic'' = None \<longrightarrow> primary_topic a = JStr ''Unknown'')
         \<and> (map_of kvs ''content_type'' = None \<longrightarrow> content_type a = JStr ''unknown'')
         \<and> (map_of kvs ''key_concepts'' = None \<longrightarrow> key_concepts a = JArr [])
         \<and> (map_of kvs ''temporal_markers'' = None \<longrightarrow> temporal_markers a = JArr [])
         \<and> (map_of kvs ''project_references'' = None \<longrightarrow> project_references a = JArr [])
         \<and> (map_of kvs ''relationship_hints'' = None \<longrightarrow> relationship_hints a = JArr [])
         \<and> (map_of kvs ''confidence'' = None \<longrightarrow> a_confidence a = JNum 0.5)"
    by (rule exI [of _ kvs]) (simp add: k a dict_get_def)
next
  assume "analyze_connection clk llm loads x y st = (Some c, st2)"
  from analyze_connection_Some [OF this] obtain kvs score where
    k: "extract_json_from_response loads (llm (calls st)) = JObj kvs"
    and sc: "num_of (dict_get kvs ''connection_score'' (JNum 0)) = Some score" "2 < score"
    and c: "c = \<lparr> source_file = file_path x, target_file = file_path y,
             connection_type = dict_get kvs ''connection_type'' (JStr ''thematic''),
             strength_score = score,
             confidence = dict_get kvs ''confidence'' (JNum 0.5),
             reason = dict_get kvs ''reason'' (JStr ''No reason provided''),
             suggested_link = dict_get kvs ''suggested_link'' JNull,
             auto_applied = False,
             created_at = clk (ticks st) \<rparr>" by blast
  have present: "map_of kvs ''connection_score'' \<noteq> None"
    using sc by (cases "map_of kvs ''connection_score''") (simp_all add: dict_get_def)
  show "\<exists>kvs. extract_json_from_response loads (llm (calls st)) = JObj kvs
         \<and> map_of kvs ''connection_score'' \<noteq> None
         \<and> (map_of kvs ''connection_type'' = None \<longrightarrow> connection_type c = JStr ''thematic'')
         \<and> (map_of kvs ''confidence'' = None \<longrightarrow> confidence c = JNum 0.5)
         \<and> (map_of kvs ''reason'' = None \<longrightarrow> reason c = JStr ''No reason provided'')
         \<and> (map_of kvs ''suggested_link'' = None \<longrightarrow> suggested_link c = JNull)"
    by (rule exI [of _ kvs]) (simp add: k c present dict_get_def)
qed

theorem absent_fields_defaults_witness:
  "analyze_file_content real llm_one_key loads_table ''/v/a.md''
     (init_analyzer [''/v/a.md'' \<mapsto> small_file]) =
   (Some analysis_defaults, (init_analyzer [''/v/a.md'' \<mapsto> small_file])\<lparr>calls := 1, ticks := 1\<rparr>)
   \<and> primary_topic analysis_defaults = JStr ''Unknown''
   \<and> key_concepts analysis_defaults = JArr []
   \<and> a_confidence analysis_defaults = JNum 0.5
   \<and> analyze_connection real llm_score_five loads_table note_a note_b (init_analyzer Map.empty) =
     (Some conn_five, (init_analyzer Map.empty)\<lparr>calls := 1, ticks := 1\<rparr>)
   \<and> confidence conn_five = JNum 0.5
   \<and> suggested_link conn_five = JNull"
proof -
  from absent_fields_defaults [of real llm_one_key loads_table "''/v/a.md''"
      "init_analyzer [''/v/a.md'' \<mapsto> small_file]" analysis_defaults
      "(init_analyzer [''/v/a.md'' \<mapsto> small_file])\<lparr>calls := 1, ticks := 1\<rparr>"]
    absent_fields_defaults [of real llm_score_five loads_table _
      "init_analyzer Map.empty" _ _ note_a note_b conn_five
      "(init_analyzer Map.empty)\<lparr>calls := 1, ticks := 1\<rparr>"]
    analyze_one_key analyze_five
  show ?thesis
    by (simp add: extract_one_key extract_five)
qed

section \<open>The policy of automatic application\<close>





section \<open>Applying a connection\<close>

lemma extract_strong:
  "extract_json_from_response loads_table (llm_strong n) =
     JObj [(''connection_score'', JNum 8), (''connection_type'', JStr ''thematic''),
           (''confidence'', JNum 0.9)]"
  by (simp add: extract_json_from_response_def loads_table_def llm_strong_def)

lemma analyze_strong:
  "analyze_connection clock_hour5 llm_strong loads_table note_a note_b (init_analyzer two_notes) =
     (Some conn_strong, (init_analyzer two_notes)\<lparr>calls := 1, ticks := 1\<rparr>)"
  by (simp add: analyze_connection_def call_ollama_def extract_strong dict_get_def time_time_def
      conn_strong_def note_a_def note_b_def init_analyzer_def clock_hour5_def)

lemma stem_b: "path_stem ''/v/b.md'' = ''b''"
  by (simp add: path_stem_def path_suffix_def path_name_def)

lemma link_strong: "link_text fmt_none conn_strong = ''- [[b]]''"
  by (simp add: link_text_def conn_strong_def stem_b)

lemma rstrip_a: "str_rstrip ''a'' = ''a''"
  by code_simp

lemma insert_link_a: "insert_link ''- [[b]]'' ''a'' = a_linked"
  by (simp add: insert_link_def rstrip_a a_linked_def)

lemma utf8_size_a_linked: "utf8_size a_linked = 29"
  by code_simp


lemma apply_strong:
  assumes "fs st = two_notes"
  shows "apply_connection fmt_none conn_strong st =
     (True, conn_strong\<lparr>auto_applied := True\<rparr>,
      st\<lparr>fs := two_notes(''/v/a.md'' \<mapsto> a_after),
         connection_application_count := connection_application_count st + 1\<rparr>)"
proof -
  have s: "source_file conn_strong = ''/v/a.md''" "target_file conn_strong = ''/v/b.md''"
    by (simp_all add: conn_strong_def)
  have f: "fs st ''/v/a.md'' = Some small_file" "fs st ''/v/b.md'' = Some small_file"
    by (simp_all add: assms two_notes_def)
  have c: "content small_file = ''a''" "readable small_file" "utf8_valid small_file"
    "writable small_file" by (simp_all add: small_file_def)
  show ?thesis
    unfolding apply_connection_def s
    by (simp add: c link_strong insert_link_a utf8_size_a_linked a_after_def assms two_notes_def)
qed

lemma should_strong:
  assumes "ticks st = 1" "last_connection_hour st = 0"
  shows "should_auto_apply_connection default_config clock_hour5 conn_strong st =
    (Inr True, st\<lparr>ticks := 2, connection_application_count := 0, last_connection_hour := 5\<rparr>)"
proof -
  have h: "py_int (clock_hour5 1 / 3600) = 5" by (simp add: py_int_def clock_hour5_def)
  show ?thesis
    unfolding should_auto_apply_connection_def time_time_def
    by (simp add: assms h py_lt_def default_config_def conn_strong_def in_str_list_def
        numeral_2_eq_2 del: One_nat_def)
qed

lemma save_strong:
  assumes "db_connections st = []"
  shows "save_connection conn_strong st = Inr (st\<lparr>db_connections := [row_strong]\<rparr>)"
  by (simp add: save_connection_def conn_strong_def assms row_strong_def)

lemma after_found_strong:
  "after_found default_config clock_hour5 fmt_none conn_strong
     ((init_analyzer two_notes)\<lparr>calls := 1, ticks := 1\<rparr>) = (None, after_cycle)"
proof -
  let ?s1 = "(init_analyzer two_notes)\<lparr>calls := 1, ticks := 1\<rparr>"
  let ?s2 = "?s1\<lparr>db_connections := [row_strong]\<rparr>"
  let ?s3 = "?s2\<lparr>stat_connections_found := Suc (stat_connections_found ?s2)\<rparr>"
  let ?s4 = "?s3\<lparr>ticks := 2, connection_application_count := 0, last_connection_hour := 5\<rparr>"
  let ?s5 = "?s4\<lparr>fs := two_notes(''/v/a.md'' \<mapsto> a_after),
         connection_application_count := connection_application_count ?s4 + 1\<rparr>"
  have sv: "save_connection conn_strong ?s1 = Inr ?s2"
    by (rule save_strong) (simp add: init_analyzer_fields)
  have sh: "should_auto_apply_connection default_config clock_hour5 conn_strong ?s3 = (Inr True, ?s4)"
    by (rule should_strong) (simp_all add: init_analyzer_fields)
  have ap: "apply_connection fmt_none conn_strong ?s4 =
      (True, conn_strong\<lparr>auto_applied := True\<rparr>, ?s5)"
    by (rule apply_strong) (simp add: init_analyzer_fields)
  have "after_found default_config clock_hour5 fmt_none conn_strong ?s1 =
      (None, ?s5\<lparr>stat_connections_applied := Suc (stat_connections_applied ?s5)\<rparr>)"
    unfolding after_found_def sv Let_def sum.case sh prod.case bool.case ap
    by (rule refl)
  also have "?s5\<lparr>stat_connections_applied := Suc (stat_connections_applied ?s5)\<rparr> = after_cycle"
    by (simp add: after_cycle_def init_analyzer_def)
  finally show ?thesis .
qed

lemma cycle_strong:
  "connection_cycle default_config clock_hour5 llm_strong loads_table fmt_none
     [note_a, note_b] (init_analyzer two_notes) = after_cycle"
  by (simp add: connection_cycle_def analyze_strong after_found_strong del: One_nat_def)

lemma pending_row_strong:
  "db_connections st = [row_strong] \<Longrightarrow> get_pending_connections 6 0.7 st = [conn_strong]"
  by (simp add: get_pending_connections_def row_strong_def conn_strong_def sql_ge_def
      order_rows_def)

text \<open>
  Claim C1 on the end-to-end scenario. The discovery cycle finds the connection, stores
  it, applies it (the source note gains the section and the link, the count of applied
  connections is 1), and the connection is still returned by
  \<^verbatim>\<open>get_pending_connections\<close>: \<^verbatim>\<open>_apply_connection\<close> marks the object it was handed
  and never writes the row. The same holds for a direct call of \<^verbatim>\<open>_apply_connection\<close> on
  a stored connection: it returns \<^verbatim>\<open>True\<close>, the object is marked, the row stays pending.
\<close>

theorem applied_connection_stays_pending:
  "connection_cycle default_config clock_hour5 llm_strong loads_table fmt_none
     [note_a, note_b] (init_analyzer two_notes) = after_cycle
   \<and> stat_connections_applied after_cycle = 1
   \<and> map_option content (fs after_cycle ''/v/a.md'') = Some a_linked
   \<and> get_pending_connections 6 0.7 after_cycle = [conn_strong]
   \<and> fst (apply_connection fmt_none conn_strong
        ((init_analyzer two_notes)\<lparr>db_connections := [row_strong]\<rparr>)) = True
   \<and> auto_applied (fst (snd (apply_connection fmt_none conn_strong
        ((init_analyzer two_notes)\<lparr>db_connections := [row_strong]\<rparr>)))) = True
   \<and> get_pending_connections 6 0.7 (snd (snd (apply_connection fmt_none conn_strong
        ((init_analyzer two_notes)\<lparr>db_connections := [row_strong]\<rparr>)))) = [conn_strong]"
proof -
  let ?st = "(init_analyzer two_notes)\<lparr>db_connections := [row_strong]\<rparr>"
  have ap: "apply_connection fmt_none conn_strong ?st =
     (True, conn_strong\<lparr>auto_applied := True\<rparr>,
      ?st\<lparr>fs := two_notes(''/v/a.md'' \<mapsto> a_after),
          connection_application_count := connection_application_count ?st + 1\<rparr>)"
    by (rule apply_strong) (simp add: init_analyzer_fields)
  have p1: "get_pending_connections 6 0.7 after_cycle = [conn_strong]"
    by (rule pending_row_strong) (simp add: after_cycle_def)
  have p2: "get_pending_connections 6 0.7
      (?st\<lparr>fs := two_notes(''/v/a.md'' \<mapsto> a_after),
          connection_application_count := connection_application_count ?st + 1\<rparr>) = [conn_strong]"
    by (rule pending_row_strong) simp
  have c: "stat_connections_applied after_cycle = 1"
    "map_option content (fs after_cycle ''/v/a.md'') = Some a_linked"
    by (simp_all add: after_cycle_def a_after_def)
  show ?thesis
    unfolding ap fst_conv snd_conv p2
    using cycle_strong p1 c by simp
qed

section \<open>Where the link line goes\<close>



lemma str_count_0_if_absent: "\<not> str_contains old s \<Longrightarrow> str_count old s = 0"
proof (induction old s rule: str_count.induct)
  case (1 sub)
  then show ?case by simp
next
  case (2 sub c cs)
  from "2.prems" have np: "\<not> str_prefix sub (c # cs)" and nc: "\<not> str_contains sub cs"
    by simp_all
  from np have f: "\<not> (sub \<noteq> [] \<and> str_prefix sub (c # cs))" by simp
  from "2.IH"(2) [OF f nc] show ?case using f by simp
qed

















end
